theory Spec2Isabelle
  imports Main
begin

section \<open>The AFF4 image stream of \<^verbatim>\<open>src/aff4_image.cc\<close>\<close>

text \<open>
  The theory embeds the chunked stream engine of \<^verbatim>\<open>aff4_image.cc\<close>: the write
  pipeline (\<^verbatim>\<open>Write\<close>, \<^verbatim>\<open>FlushChunk\<close>, \<^verbatim>\<open>_FlushBevy\<close>, \<^verbatim>\<open>Flush\<close>), the read pipeline
  (\<^verbatim>\<open>Read\<close>, \<^verbatim>\<open>_ReadPartial\<close>, \<^verbatim>\<open>_ReadChunkFromBevy\<close>) and \<^verbatim>\<open>LoadFromURN\<close>.
  Byte strings are \<^typ>\<open>string\<close> (a \<^typ>\<open>char\<close> is one byte). The fields of the object
  are a record that every operation takes and returns; the resolver and the volume are a
  second record. Results that the C++ never delivers (a division by zero, \<^verbatim>\<open>LOG(FATAL)\<close>,
  a loop that does not end) are \<^term>\<open>None\<close>.

  Byte counts, offsets and counters whose declarations are in the header are natural
  numbers; the variables this file declares as \<^verbatim>\<open>uint32_t\<close>, \<^verbatim>\<open>unsigned int\<close> or \<^verbatim>\<open>int\<close>
  and that hold on-disk index values or converted lengths are numbers below \<open>2 ^ 32\<close>,
  with the wrap-around of their arithmetic written out.
\<close>

type_synonym bytes = string

subsection \<open>Status codes and the compression enum\<close>

text \<open>The statuses that \<^verbatim>\<open>aff4_image.cc\<close> names.\<close>

datatype AFF4Status =
  STATUS_OK | NOT_FOUND | MEMORY_ERROR | GENERIC_ERROR | NOT_IMPLEMENTED | IO_ERROR

text \<open>
  Modelled from the spec: the numeric values of \<^verbatim>\<open>AFF4Status\<close> are declared in a header
  that is not part of the sources. \<^verbatim>\<open>_ReadPartial\<close> returns a status through its \<^verbatim>\<open>int\<close>
  result and \<^verbatim>\<open>Read\<close> tests it with \<^verbatim>\<open>chunks_read < 0\<close>; the spec says that "a negative
  error propagates as empty result", so every error status is a negative number.
\<close>

fun status_code :: "AFF4Status \<Rightarrow> int" where
  "status_code STATUS_OK = 0"
| "status_code NOT_FOUND = - 1"
| "status_code MEMORY_ERROR = - 3"
| "status_code GENERIC_ERROR = - 4"
| "status_code NOT_IMPLEMENTED = - 7"
| "status_code IO_ERROR = - 8"

datatype AFF4_IMAGE_COMPRESSION_ENUM =
  AFF4_IMAGE_COMPRESSION_ENUM_UNKNOWN
| AFF4_IMAGE_COMPRESSION_ENUM_STORED
| AFF4_IMAGE_COMPRESSION_ENUM_ZLIB
| AFF4_IMAGE_COMPRESSION_ENUM_SNAPPY

subsection \<open>What the file takes from outside\<close>

text \<open>
  zlib, snappy and the lexicon are not part of the sources; they are parameters.
  \<^item> \<open>compress2\<close>: the call \<^verbatim>\<open>compress2(out, &c_length, data, length, 1)\<close> on an output
    string of \<^verbatim>\<open>compressBound(length) + 1\<close> bytes: whether it returned \<^verbatim>\<open>Z_OK\<close>, and the
    contents of the output string when \<^verbatim>\<open>CompressZlib_\<close> returns.
  \<^item> \<open>inflate\<close>: the bytes that a zlib stream decompresses to when the decoder is
    given enough memory and room, \<^term>\<open>None\<close> when it cannot be decoded.
  \<^item> \<open>snappy_Compress\<close>, \<open>snappy_Uncompress\<close>: \<^verbatim>\<open>snappy::Compress\<close> and
    \<^verbatim>\<open>snappy::Uncompress\<close> (\<^term>\<open>None\<close> when it returns false).
  \<^item> \<open>CompressionMethodFromURN\<close>, \<open>CompressionMethodToURN\<close>, \<open>AFF4_IMAGE_TYPE\<close>,
    \<open>AFF4_MAX_READ_LEN\<close>: the lexicon's functions and constants.
\<close>

record externals =
  compress2 :: "bytes \<Rightarrow> bool \<times> bytes"
  inflate :: "bytes \<Rightarrow> bytes option"
  snappy_Compress :: "bytes \<Rightarrow> bytes"
  snappy_Uncompress :: "bytes \<Rightarrow> bytes option"
  CompressionMethodFromURN :: "string \<Rightarrow> AFF4_IMAGE_COMPRESSION_ENUM"
  CompressionMethodToURN :: "AFF4_IMAGE_COMPRESSION_ENUM \<Rightarrow> string"
  AFF4_IMAGE_TYPE :: string
  AFF4_MAX_READ_LEN :: nat

text \<open>
  zlib's \<^verbatim>\<open>uncompress(dest, &destLen, source, sourceLen)\<close> follows its documented
  contract: it returns \<^verbatim>\<open>Z_OK\<close> only when the whole decompressed data fits into the
  \<^verbatim>\<open>destLen\<close> bytes it was given (\<^verbatim>\<open>Z_BUF_ERROR\<close> otherwise) and then sets \<^verbatim>\<open>destLen\<close>
  to the length of that data.
\<close>

definition uncompress :: "externals \<Rightarrow> nat \<Rightarrow> bytes \<Rightarrow> bytes option" where
  "uncompress e destLen source =
     (case inflate e source of
        None \<Rightarrow> None
      | Some out \<Rightarrow> if length out \<le> destLen then Some out else None)"

subsection \<open>Resolver and volume\<close>

datatype predicate =
  AFF4_TYPE | AFF4_STORED | AFF4_IMAGE_CHUNK_SIZE | AFF4_IMAGE_CHUNKS_PER_SEGMENT
| AFF4_STREAM_SIZE | AFF4_IMAGE_COMPRESSION

datatype rdf_value = URN string | XSDInteger nat

text \<open>
  Modelled from the spec: the resolver ("a key/value store of (subject URN, predicate
  URN) \<rightarrow> typed value") and the volume ("create a named member that accepts bytes, later
  open a named member for reading, with known size and seek"; "closing a member
  finalizes its on-disk representation") are collaborators outside the sources.
  \<^item> \<open>attributes\<close>: the resolver's store;
  \<^item> \<open>volumes\<close>: the URNs that \<^verbatim>\<open>AFF4FactoryOpen<AFF4Volume>\<close> can open;
  \<^item> \<open>can_create\<close>: the URNs for which \<^verbatim>\<open>CreateMember\<close> returns a stream;
  \<^item> \<open>members\<close>: the finalized members, by URN.
\<close>

record DataStore =
  attributes :: "string \<times> predicate \<Rightarrow> rdf_value option"
  volumes :: "string \<Rightarrow> bool"
  can_create :: "string \<Rightarrow> bool"
  members :: "string \<Rightarrow> bytes option"

text \<open>\<^verbatim>\<open>resolver->Get(urn, p, out)\<close> returns \<^verbatim>\<open>STATUS_OK\<close> exactly when it yields a value of
  the type of \<^verbatim>\<open>out\<close>.\<close>

definition Get_URN :: "DataStore \<Rightarrow> string \<Rightarrow> predicate \<Rightarrow> string option" where
  "Get_URN w subject p =
     (case attributes w (subject, p) of Some (URN u) \<Rightarrow> Some u | _ \<Rightarrow> None)"

definition Get_XSDInteger :: "DataStore \<Rightarrow> string \<Rightarrow> predicate \<Rightarrow> nat option" where
  "Get_XSDInteger w subject p =
     (case attributes w (subject, p) of Some (XSDInteger n) \<Rightarrow> Some n | _ \<Rightarrow> None)"

definition Set :: "DataStore \<Rightarrow> string \<Rightarrow> predicate \<Rightarrow> rdf_value \<Rightarrow> DataStore" where
  "Set w subject p v = w\<lparr>attributes := (attributes w)((subject, p) \<mapsto> v)\<rparr>"

text \<open>Modelled from the spec: a member is named \<^verbatim>\<open><stream_urn>/<nnnnnnnn>\<close>, its index
  \<^verbatim>\<open><stream_urn>/<nnnnnnnn>/index\<close>, where \<^verbatim>\<open>nnnnnnnn\<close> is \<^verbatim>\<open>%08d\<close> of the bevy number.\<close>

definition urn_Append :: "string \<Rightarrow> string \<Rightarrow> string" where
  "urn_Append u component = u @ ''/'' @ component"

fun decimal :: "nat \<Rightarrow> string" where
  "decimal n =
     (if n < 10 then [char_of (48 + n)]
      else decimal (n div 10) @ [char_of (48 + n mod 10)])"

declare decimal.simps [simp del]

text \<open>\<^verbatim>\<open>aff4_sprintf("%08d", n)\<close>: the decimal digits, zero-padded to a width of 8, the
  sign counting for the width.\<close>

definition aff4_sprintf_08d :: "int \<Rightarrow> string" where
  "aff4_sprintf_08d n =
     (if n < 0
      then CHR ''-'' # take (7 - length (decimal (nat (- n)))) ''0000000'' @ decimal (nat (- n))
      else take (8 - length (decimal (nat n))) ''00000000'' @ decimal (nat n))"

subsection \<open>The in-memory bevy builder and member streams\<close>

text \<open>
  Modelled from the spec: the two \<^verbatim>\<open>StringIO\<close> accumulators of the bevy builder only
  ever receive \<^verbatim>\<open>Write\<close> and \<^verbatim>\<open>Truncate\<close>: "appended compressed chunk payloads", with
  the index entry "the byte offset within data at which that chunk begins (recorded
  before the chunk bytes are appended)". So an accumulator is its bytes, its position
  is their number.
\<close>

definition sio_Size :: "bytes \<Rightarrow> nat" where
  "sio_Size b = length b"

definition sio_Tell :: "bytes \<Rightarrow> nat" where
  "sio_Tell b = length b"

definition sio_Write :: "bytes \<Rightarrow> bytes \<Rightarrow> bytes" where
  "sio_Write b data = b @ data"

definition sio_Truncate :: "bytes \<Rightarrow> bytes" where
  "sio_Truncate b = []"

text \<open>A \<^verbatim>\<open>uint32_t\<close> written through \<^verbatim>\<open>(char *)&bevy_offset\<close>: four bytes, little-endian.\<close>

definition uint32 :: "nat \<Rightarrow> nat" where
  "uint32 n = n mod 4294967296"

text \<open>The value that an \<^verbatim>\<open>int\<close> variable holds after an assignment of \<open>n\<close>.\<close>

definition int32 :: "int \<Rightarrow> int" where
  "int32 n = (n + 2147483648) mod 4294967296 - 2147483648"

text \<open>The value that a \<^verbatim>\<open>size_t\<close> variable holds after an assignment of \<open>n\<close>.\<close>

definition size_t :: "int \<Rightarrow> nat" where
  "size_t n = nat (n mod 18446744073709551616)"

definition u32_bytes :: "nat \<Rightarrow> bytes" where
  "u32_bytes x =
     [char_of x, char_of (x div 256), char_of (x div 65536), char_of (x div 16777216)]"

text \<open>Modelled from the spec: a member opened for reading has its bytes, a size and a
  position; a read returns the bytes that are there, at most the number asked for.\<close>

record member_stream =
  m_data :: bytes
  m_readptr :: nat

definition AFF4FactoryOpen_Stream :: "DataStore \<Rightarrow> string \<Rightarrow> member_stream option" where
  "AFF4FactoryOpen_Stream w u =
     (case members w u of
        None \<Rightarrow> None
      | Some d \<Rightarrow> Some \<lparr>m_data = d, m_readptr = 0\<rparr>)"

definition m_Size :: "member_stream \<Rightarrow> nat" where
  "m_Size m = length (m_data m)"

definition m_Tell :: "member_stream \<Rightarrow> nat" where
  "m_Tell m = m_readptr m"

definition m_Seek :: "member_stream \<Rightarrow> nat \<Rightarrow> member_stream" where
  "m_Seek m offset = m\<lparr>m_readptr := offset\<rparr>"

definition m_Read :: "member_stream \<Rightarrow> nat \<Rightarrow> bytes \<times> member_stream" where
  "m_Read m n =
     (let r = take n (drop (m_readptr m) (m_data m))
      in (r, m\<lparr>m_readptr := m_readptr m + length r\<rparr>))"

subsection \<open>The image object\<close>

text \<open>The fields of \<^verbatim>\<open>AFF4Image\<close> that the file uses (\<open>stream_size\<close> is the field \<^verbatim>\<open>size\<close>,
  \<open>dirty\<close> the flag behind \<^verbatim>\<open>MarkDirty\<close> and \<^verbatim>\<open>IsDirty\<close>).\<close>

record AFF4Image =
  urn :: string
  volume_urn :: string
  chunk_size :: nat
  chunks_per_segment :: nat
  stream_size :: nat
  readptr :: nat
  compression :: AFF4_IMAGE_COMPRESSION_ENUM
  buffer :: bytes
  bevy :: bytes
  bevy_index :: bytes
  bevy_number :: nat
  chunk_count_in_bevy :: nat
  dirty :: bool

subsection \<open>\<^verbatim>\<open>LoadFromURN\<close>\<close>

definition LoadFromURN :: "externals \<Rightarrow> DataStore \<Rightarrow> AFF4Image \<Rightarrow> AFF4Status \<times> AFF4Image" where
  "LoadFromURN e w s =
     (case Get_URN w (urn s) AFF4_STORED of
        None \<Rightarrow> (NOT_FOUND, s)
      | Some v \<Rightarrow>
          let s1 = s\<lparr>volume_urn := v\<rparr>;
              s2 = (case Get_XSDInteger w (urn s1) AFF4_IMAGE_CHUNK_SIZE of
                      Some n \<Rightarrow> s1\<lparr>chunk_size := n\<rparr> | None \<Rightarrow> s1);
              s3 = (case Get_XSDInteger w (urn s2) AFF4_IMAGE_CHUNKS_PER_SEGMENT of
                      Some n \<Rightarrow> s2\<lparr>chunks_per_segment := n\<rparr> | None \<Rightarrow> s2);
              s4 = (case Get_XSDInteger w (urn s3) AFF4_STREAM_SIZE of
                      Some n \<Rightarrow> s3\<lparr>stream_size := n\<rparr> | None \<Rightarrow> s3)
          in (case Get_URN w (urn s4) AFF4_IMAGE_COMPRESSION of
                Some compression_urn \<Rightarrow>
                  (let s5 = s4\<lparr>compression := CompressionMethodFromURN e compression_urn\<rparr>
                   in if compression s5 = AFF4_IMAGE_COMPRESSION_ENUM_UNKNOWN
                      then (NOT_IMPLEMENTED, s5)
                      else (STATUS_OK, s5))
              | None \<Rightarrow> (STATUS_OK, s4)))"

subsection \<open>The write pipeline\<close>

text \<open>
  \<^verbatim>\<open>_FlushBevy\<close>. The counter \<^verbatim>\<open>bevy_number\<close> is a 32-bit \<^verbatim>\<open>unsigned int\<close>, as \<^verbatim>\<open>bevy_id\<close> of
  \<^verbatim>\<open>_ReadPartial\<close> is: \<^verbatim>\<open>%08d\<close> reads the value passed to it as an \<^verbatim>\<open>int\<close>, so from
  \<open>2\<^sup>3\<^sup>1\<close> on the name carries a minus sign, and \<^verbatim>\<open>bevy_number++\<close> wraps at \<open>2\<^sup>3\<^sup>2\<close>.
\<close>

definition FlushBevy :: "DataStore \<Rightarrow> AFF4Image \<Rightarrow> AFF4Status \<times> DataStore \<times> AFF4Image" where
  "FlushBevy w s =
     (if sio_Size (bevy s) = 0 then (STATUS_OK, w, s)
      else
        let bevy_urn = urn_Append (urn s) (aff4_sprintf_08d (int32 (int (bevy_number s))));
            s1 = s\<lparr>bevy_number := uint32 (bevy_number s + 1)\<rparr>;
            bevy_index_urn = urn_Append bevy_urn ''index''
        in if \<not> volumes w (volume_urn s1) then (NOT_FOUND, w, s1)
           else if \<not> can_create w bevy_index_urn \<or> \<not> can_create w bevy_urn
           then (IO_ERROR, w, s1)
           else
             (STATUS_OK,
              w\<lparr>members := (members w)(bevy_index_urn \<mapsto> bevy_index s1, bevy_urn \<mapsto> bevy s1)\<rparr>,
              s1\<lparr>bevy_index := sio_Truncate (bevy_index s1),
                 bevy := sio_Truncate (bevy s1),
                 chunk_count_in_bevy := 0\<rparr>))"

definition CompressZlib :: "externals \<Rightarrow> bytes \<Rightarrow> AFF4Status \<times> bytes" where
  "CompressZlib e data =
     (case compress2 e data of
        (ok, output) \<Rightarrow> if \<not> ok then (MEMORY_ERROR, output) else (STATUS_OK, output))"

definition CompressSnappy :: "externals \<Rightarrow> bytes \<Rightarrow> AFF4Status \<times> bytes" where
  "CompressSnappy e data = (STATUS_OK, snappy_Compress e data)"

text \<open>The \<^verbatim>\<open>switch\<close> of \<^verbatim>\<open>FlushChunk\<close>; \<^term>\<open>None\<close> is its \<^verbatim>\<open>default\<close> branch.\<close>

definition compress_chunk :: "externals \<Rightarrow> AFF4Image \<Rightarrow> bytes \<Rightarrow> (AFF4Status \<times> bytes) option" where
  "compress_chunk e s data =
     (case compression s of
        AFF4_IMAGE_COMPRESSION_ENUM_ZLIB \<Rightarrow> Some (CompressZlib e data)
      | AFF4_IMAGE_COMPRESSION_ENUM_SNAPPY \<Rightarrow> Some (CompressSnappy e data)
      | AFF4_IMAGE_COMPRESSION_ENUM_STORED \<Rightarrow> Some (STATUS_OK, data)
      | AFF4_IMAGE_COMPRESSION_ENUM_UNKNOWN \<Rightarrow> None)"

definition FlushChunk ::
  "externals \<Rightarrow> DataStore \<Rightarrow> AFF4Image \<Rightarrow> bytes \<Rightarrow> AFF4Status \<times> DataStore \<times> AFF4Image" where
  "FlushChunk e w s data =
     (let bevy_offset = uint32 (sio_Tell (bevy s))
      in case compress_chunk e s data of
           None \<Rightarrow> (IO_ERROR, w, s)
         | Some (result, output) \<Rightarrow>
             let s1 = s\<lparr>bevy_index := sio_Write (bevy_index s) (u32_bytes bevy_offset)\<rparr>;
                 s2 = s1\<lparr>bevy := sio_Write (bevy s1) output\<rparr>;
                 s3 = s2\<lparr>chunk_count_in_bevy := chunk_count_in_bevy s2 + 1\<rparr>
             in if chunk_count_in_bevy s3 \<ge> chunks_per_segment s3
                then FlushBevy w s3
                else (result, w, s3))"

text \<open>
  The \<^verbatim>\<open>while\<close> loop of \<^verbatim>\<open>Write\<close>. It yields whether every \<^verbatim>\<open>FlushChunk\<close> returned
  \<^verbatim>\<open>STATUS_OK\<close> (\<^term>\<open>False\<close> is the \<^verbatim>\<open>return 0\<close> inside the loop), the state and the final
  \<^verbatim>\<open>offset\<close>. With \<^verbatim>\<open>chunk_size = 0\<close> the loop need not end, so it is a partial function.
\<close>

partial_function (option) Write_loop ::
  "externals \<Rightarrow> DataStore \<Rightarrow> AFF4Image \<Rightarrow> nat \<Rightarrow> (bool \<times> DataStore \<times> AFF4Image \<times> nat) option" where
  "Write_loop e w s offset =
     (if length (buffer s) - offset \<ge> chunk_size s then
        (case FlushChunk e w s (take (chunk_size s) (drop offset (buffer s))) of
           (st, w', s') \<Rightarrow>
             if st \<noteq> STATUS_OK then Some (False, w', s', offset)
             else Write_loop e w' s' (offset + chunk_size s))
      else Some (True, w, s, offset))"

definition Write ::
  "externals \<Rightarrow> DataStore \<Rightarrow> AFF4Image \<Rightarrow> bytes \<Rightarrow> (int \<times> DataStore \<times> AFF4Image) option" where
  "Write e w s data =
     (let s0 = s\<lparr>dirty := True\<rparr>;
          s1 = s0\<lparr>buffer := buffer s0 @ data\<rparr>
      in case Write_loop e w s1 0 of
           None \<Rightarrow> None
         | Some (ok, w', s2, offset) \<Rightarrow>
             if \<not> ok then Some (0, w', s2)
             else
               let s3 = s2\<lparr>buffer := drop offset (buffer s2)\<rparr>;
                   s4 = s3\<lparr>readptr := readptr s3 + length data\<rparr>;
                   s5 = (if readptr s4 > stream_size s4
                         then s4\<lparr>stream_size := readptr s4\<rparr> else s4)
               in Some (int (length data), w', s5))"

text \<open>Modelled from the spec: \<^verbatim>\<open>AFF4Stream::Flush\<close>, the base class's method, is outside
  the sources; it is there "to clear the dirty flag".\<close>

definition AFF4Stream_Flush :: "DataStore \<Rightarrow> AFF4Image \<Rightarrow> AFF4Status \<times> DataStore \<times> AFF4Image" where
  "AFF4Stream_Flush w s = (STATUS_OK, w, s\<lparr>dirty := False\<rparr>)"

definition Flush :: "externals \<Rightarrow> DataStore \<Rightarrow> AFF4Image \<Rightarrow> AFF4Status \<times> DataStore \<times> AFF4Image" where
  "Flush e w s =
     (if dirty s then
        (case FlushChunk e w s (buffer s) of
           (st1, w1, s1) \<Rightarrow>
             let s2 = s1\<lparr>buffer := []\<rparr>
             in case FlushBevy w1 s2 of
                  (st2, w2, s3) \<Rightarrow>
                    let w3 = Set w2 (urn s3) AFF4_TYPE (URN (AFF4_IMAGE_TYPE e));
                        w4 = Set w3 (urn s3) AFF4_STORED (URN (volume_urn s3));
                        w5 = Set w4 (urn s3) AFF4_IMAGE_CHUNK_SIZE (XSDInteger (chunk_size s3));
                        w6 = Set w5 (urn s3) AFF4_IMAGE_CHUNKS_PER_SEGMENT
                               (XSDInteger (chunks_per_segment s3));
                        w7 = Set w6 (urn s3) AFF4_STREAM_SIZE (XSDInteger (stream_size s3));
                        w8 = Set w7 (urn s3) AFF4_IMAGE_COMPRESSION
                               (URN (CompressionMethodToURN e (compression s3)))
                    in AFF4Stream_Flush w8 s3)
      else AFF4Stream_Flush w s)"

subsection \<open>The read pipeline\<close>

text \<open>The index member seen through \<^verbatim>\<open>(uint32_t *)bevy_index_data.data()\<close>: every four
  bytes are one little-endian entry.\<close>

fun u32_array :: "bytes \<Rightarrow> nat list" where
  "u32_array (a # b # c # d # rest) =
     (of_char a + 256 * of_char b + 65536 * of_char c + 16777216 * of_char d) # u32_array rest"
| "u32_array rest = []"

text \<open>The size that \<^verbatim>\<open>_ReadChunkFromBevy\<close> computes for a chunk that its index holds
  (\<open>chunk_id_in_bevy < index_size\<close>), an \<^verbatim>\<open>unsigned int\<close>.\<close>

definition compressed_chunk_size ::
  "member_stream \<Rightarrow> nat list \<Rightarrow> nat \<Rightarrow> nat \<Rightarrow> nat" where
  "compressed_chunk_size bevy_stream bevy_index_array index_size chunk_id_in_bevy =
     (if chunk_id_in_bevy = index_size - 1
      then nat ((int (m_Size bevy_stream) - int (m_Tell bevy_stream)) mod 4294967296)
      else (bevy_index_array ! (chunk_id_in_bevy + 1) + 4294967296
          - bevy_index_array ! chunk_id_in_bevy)
             mod 4294967296)"

definition DeCompressZlib :: "externals \<Rightarrow> bytes \<Rightarrow> bytes \<Rightarrow> AFF4Status \<times> bytes" where
  "DeCompressZlib e data buffer0 =
     (case uncompress e (length buffer0) data of
        Some out \<Rightarrow> (STATUS_OK, out)
      | None \<Rightarrow> (IO_ERROR, buffer0))"

definition DeCompressSnappy :: "externals \<Rightarrow> bytes \<Rightarrow> bytes \<Rightarrow> AFF4Status \<times> bytes" where
  "DeCompressSnappy e data output =
     (case snappy_Uncompress e data of
        None \<Rightarrow> (GENERIC_ERROR, output)
      | Some out \<Rightarrow> (STATUS_OK, out))"

text \<open>The \<^verbatim>\<open>switch\<close> of \<^verbatim>\<open>_ReadChunkFromBevy\<close>; \<^term>\<open>None\<close> is its \<^verbatim>\<open>LOG(FATAL)\<close>.\<close>

definition decompress_chunk ::
  "externals \<Rightarrow> AFF4Image \<Rightarrow> bytes \<Rightarrow> bytes \<Rightarrow> (AFF4Status \<times> bytes) option" where
  "decompress_chunk e s cbuffer buffer0 =
     (case compression s of
        AFF4_IMAGE_COMPRESSION_ENUM_ZLIB \<Rightarrow> Some (DeCompressZlib e cbuffer buffer0)
      | AFF4_IMAGE_COMPRESSION_ENUM_SNAPPY \<Rightarrow> Some (DeCompressSnappy e cbuffer buffer0)
      | AFF4_IMAGE_COMPRESSION_ENUM_STORED \<Rightarrow> Some (STATUS_OK, cbuffer)
      | AFF4_IMAGE_COMPRESSION_ENUM_UNKNOWN \<Rightarrow> None)"

text \<open>\<^verbatim>\<open>_ReadChunkFromBevy\<close> returns the status, the string \<^verbatim>\<open>result\<close> and the bevy stream,
  whose position it moves. \<^term>\<open>None\<close>: the division by \<^verbatim>\<open>chunks_per_segment = 0\<close> or
  \<^verbatim>\<open>LOG(FATAL)\<close>.\<close>

definition ReadChunkFromBevy ::
  "externals \<Rightarrow> AFF4Image \<Rightarrow> bytes \<Rightarrow> nat \<Rightarrow> member_stream \<Rightarrow> nat list \<Rightarrow> nat \<Rightarrow>
     (AFF4Status \<times> bytes \<times> member_stream) option" where
  "ReadChunkFromBevy e s result chunk_id bevy_stream bevy_index_array index_size =
     (if chunks_per_segment s = 0 then None
      else
        let chunk_id_in_bevy = chunk_id mod chunks_per_segment s
        in if index_size = 0 then Some (IO_ERROR, result, bevy_stream)
           else if chunk_id_in_bevy \<ge> index_size then Some (IO_ERROR, result, bevy_stream)
           else
             let n = compressed_chunk_size bevy_stream bevy_index_array index_size
                       chunk_id_in_bevy;
                 bevy1 = m_Seek bevy_stream (bevy_index_array ! chunk_id_in_bevy)
             in case m_Read bevy1 n of
                  (cbuffer, bevy2) \<Rightarrow>
                    let buffer0 = replicate (chunk_size s) (CHR 0x00)
                    in (case decompress_chunk e s cbuffer buffer0 of
                          None \<Rightarrow> None
                        | Some (res, buffer') \<Rightarrow>
                            if res \<noteq> STATUS_OK then Some (res, result, bevy2)
                            else Some (STATUS_OK, result @ buffer', bevy2)))"

text \<open>How the inner \<^verbatim>\<open>while\<close> of \<^verbatim>\<open>_ReadPartial\<close> ends: by the \<^verbatim>\<open>return res\<close> inside it,
  or by leaving the loop with \<^verbatim>\<open>chunk_id\<close>, \<^verbatim>\<open>chunks_to_read\<close> and \<^verbatim>\<open>chunks_read\<close>; both
  with the string \<^verbatim>\<open>result\<close>.\<close>

datatype inner_exit = Returned int bytes | Left nat int int bytes

function ReadPartial_inner ::
  "externals \<Rightarrow> AFF4Image \<Rightarrow> nat \<Rightarrow> member_stream \<Rightarrow> nat list \<Rightarrow> nat \<Rightarrow>
     nat \<Rightarrow> int \<Rightarrow> int \<Rightarrow> bytes \<Rightarrow> inner_exit option" where
  "ReadPartial_inner e s bevy_id bevy_stream bevy_index_array index_size
       chunk_id chunks_to_read chunks_read result =
     (if chunks_to_read > 0 then
        (case ReadChunkFromBevy e s result chunk_id bevy_stream bevy_index_array index_size of
           None \<Rightarrow> None
         | Some (res, result', bevy') \<Rightarrow>
             if res \<noteq> STATUS_OK then Some (Returned (status_code res) result')
             else if bevy_id < uint32 (chunk_id + 1) div chunks_per_segment s
             then Some (Left (uint32 (chunk_id + 1)) (chunks_to_read - 1) (chunks_read + 1) result')
             else ReadPartial_inner e s bevy_id bevy' bevy_index_array index_size
                    (uint32 (chunk_id + 1)) (chunks_to_read - 1) (chunks_read + 1) result')
      else Some (Left chunk_id chunks_to_read chunks_read result))"
  by pat_completeness auto
termination
  by (relation "measure (\<lambda>(e, s, bevy_id, b, arr, isz, chunk_id, chunks_to_read, rest).
        nat chunks_to_read)") auto

declare ReadPartial_inner.simps [simp del]

lemma ReadPartial_inner_Left_less:
  "ReadPartial_inner e s bevy_id b arr isz chunk_id chunks_to_read chunks_read result
     = Some (Left chunk_id' chunks_to_read' chunks_read' result')
   \<Longrightarrow> 0 < chunks_to_read \<Longrightarrow> chunks_to_read' < chunks_to_read"
proof (induction e s bevy_id b arr isz chunk_id chunks_to_read chunks_read result
       rule: ReadPartial_inner.induct)
  case (1 e s bevy_id b arr isz chunk_id chunks_to_read chunks_read result)
  from "1.prems" obtain res r1 b1 where
    rc: "ReadChunkFromBevy e s result chunk_id b arr isz = Some (res, r1, b1)"
    by (subst (asm) ReadPartial_inner.simps) (auto split: option.splits)
  from "1.prems" rc have ok: "res = STATUS_OK"
    by (subst (asm) ReadPartial_inner.simps) (auto split: if_splits)
  show ?case
  proof (cases "bevy_id < uint32 (chunk_id + 1) div chunks_per_segment s")
    case True
    with "1.prems" rc ok show ?thesis
      by (subst (asm) ReadPartial_inner.simps) auto
  next
    case False
    note same_bevy = this
    with "1.prems" rc ok have rec:
      "ReadPartial_inner e s bevy_id b1 arr isz (uint32 (chunk_id + 1)) (chunks_to_read - 1)
         (chunks_read + 1) r1 = Some (Left chunk_id' chunks_to_read' chunks_read' result')"
      by (subst (asm) ReadPartial_inner.simps) auto
    show ?thesis
    proof (cases "0 < chunks_to_read - 1")
      case True
      note more = this
      have "chunks_to_read' < chunks_to_read - 1"
        using "1.IH" [of "(res, r1, b1)" res "(r1, b1)" r1 b1] "1.prems"(2) rc ok same_bevy rec more
        by simp
      then show ?thesis by simp
    next
      case False
      with rec have "chunks_to_read' = chunks_to_read - 1"
        by (subst (asm) ReadPartial_inner.simps) auto
      then show ?thesis by simp
    qed
  qed
qed

text \<open>\<^verbatim>\<open>_ReadPartial\<close>: the outer \<^verbatim>\<open>while\<close>, with the local \<^verbatim>\<open>chunks_read\<close> as an argument
  (it starts at 0). The result is the \<^verbatim>\<open>int\<close> returned and the string \<^verbatim>\<open>result\<close>.\<close>

function ReadPartial ::
  "externals \<Rightarrow> DataStore \<Rightarrow> AFF4Image \<Rightarrow> nat \<Rightarrow> int \<Rightarrow> int \<Rightarrow> bytes \<Rightarrow>
     (int \<times> bytes) option" where
  "ReadPartial e w s chunk_id chunks_to_read chunks_read result =
     (if chunks_to_read > 0 then
        (if chunks_per_segment s = 0 then None
         else
           let bevy_id = chunk_id div chunks_per_segment s;
               bevy_urn = urn_Append (urn s) (aff4_sprintf_08d (int32 (int bevy_id)));
               bevy_index_urn = urn_Append bevy_urn ''index''
           in case AFF4FactoryOpen_Stream w bevy_index_urn of
                None \<Rightarrow> Some (- 1, result)
              | Some bevy_index_stream \<Rightarrow>
                  (case AFF4FactoryOpen_Stream w bevy_urn of
                     None \<Rightarrow> Some (- 1, result)
                   | Some bevy_stream \<Rightarrow>
                       let index_size = uint32 (m_Size bevy_index_stream div 4);
                           bevy_index_data =
                             fst (m_Read bevy_index_stream (m_Size bevy_index_stream));
                           bevy_index_array = u32_array bevy_index_data
                       in (case ReadPartial_inner e s bevy_id bevy_stream bevy_index_array
                                  index_size chunk_id chunks_to_read chunks_read result of
                             None \<Rightarrow> None
                           | Some (Returned res result') \<Rightarrow> Some (res, result')
                           | Some (Left chunk_id' chunks_to_read' chunks_read' result') \<Rightarrow>
                               ReadPartial e w s chunk_id' chunks_to_read' chunks_read' result')))
      else Some (chunks_read, result))"
  by pat_completeness auto
termination
  by (relation "measure (\<lambda>(e, w, s, chunk_id, chunks_to_read, rest). nat chunks_to_read)")
     (auto dest: ReadPartial_inner_Left_less)

declare ReadPartial.simps [simp del]

text \<open>The \<^verbatim>\<open>while\<close> of \<^verbatim>\<open>Read\<close>: \<^term>\<open>Inl ()\<close> is its \<^verbatim>\<open>return ""\<close>, \<^term>\<open>Inr result\<close> the
  string with which the loop is left.\<close>

function Read_loop ::
  "externals \<Rightarrow> DataStore \<Rightarrow> AFF4Image \<Rightarrow> nat \<Rightarrow> int \<Rightarrow> bytes \<Rightarrow> (unit + bytes) option" where
  "Read_loop e w s chunk_id chunks_to_read result =
     (if chunks_to_read > 0 then
        (case ReadPartial e w s chunk_id chunks_to_read 0 result of
           None \<Rightarrow> None
         | Some (chunks_read, result') \<Rightarrow>
             if chunks_read < 0 then Some (Inl ())
             else if chunks_read = 0 then Some (Inr result')
             else Read_loop e w s chunk_id (chunks_to_read - chunks_read) result')
      else Some (Inr result))"
  by pat_completeness auto
termination
  by (relation "measure (\<lambda>(e, w, s, chunk_id, chunks_to_read, result). nat chunks_to_read)")
     auto

declare Read_loop.simps [simp del]

text \<open>
  \<^verbatim>\<open>std::string::resize\<close> cuts the string or fills it up with zero bytes. A new size
  that no string can have makes it throw (\<^verbatim>\<open>std::length_error\<close>), which is \<^term>\<open>None\<close>: a
  size from \<open>2\<^sup>6\<^sup>3\<close> on is above \<^verbatim>\<open>max_size()\<close>, and that is what the \<^verbatim>\<open>size_t\<close> holds to
  which \<^verbatim>\<open>Read\<close> assigns a negative number. Memory is not bounded otherwise.
\<close>

definition resize :: "bytes \<Rightarrow> nat \<Rightarrow> bytes option" where
  "resize str n =
     (if n \<ge> 9223372036854775808 then None
      else Some (take n str @ replicate (n - length str) (CHR 0x00)))"

text \<open>\<^verbatim>\<open>Read\<close> returns the string and the object, of which it changes \<^verbatim>\<open>readptr\<close>.
  \<^term>\<open>None\<close> is a call that delivers no string: the remainder by \<^verbatim>\<open>chunk_size = 0\<close>, the
  exception of \<^verbatim>\<open>result.resize(length)\<close> when \<^verbatim>\<open>readptr\<close> is beyond \<^verbatim>\<open>size\<close> (then \<^verbatim>\<open>length\<close>
  is the conversion of a negative number), or \<^term>\<open>None\<close> from below.\<close>

definition Read ::
  "externals \<Rightarrow> DataStore \<Rightarrow> AFF4Image \<Rightarrow> nat \<Rightarrow> (bytes \<times> AFF4Image) option" where
  "Read e w s length0 =
     (if length0 > AFF4_MAX_READ_LEN e then Some ([], s)
      else
        let length1 = size_t (min (int length0) (int (stream_size s) - int (readptr s)))
        in if chunk_size s = 0 then None
           else
             let initial_chunk_offset = int32 (int (readptr s mod chunk_size s));
                 chunks_to_read = int32 (int (length1 div chunk_size s + 1));
                 chunk_id = uint32 (readptr s div chunk_size s)
             in case Read_loop e w s chunk_id chunks_to_read [] of
                  None \<Rightarrow> None
                | Some (Inl u) \<Rightarrow> Some ([], s)
                | Some (Inr result) \<Rightarrow>
                    let result1 = (if initial_chunk_offset \<noteq> 0
                                   then drop (size_t initial_chunk_offset) result else result)
                    in (case resize result1 length1 of
                          None \<Rightarrow> None
                        | Some result2 \<Rightarrow>
                            Some (result2,
                                  s\<lparr>readptr := size_t (int (readptr s) + int length1)\<rparr>)))"

subsection \<open>The steps of a read\<close>









subsection \<open>A new object and example inputs\<close>

text \<open>Modelled from the spec: the initial values of the fields are in the header, which is
  outside the sources. The spec gives them: \<open>chunk_size\<close> "default 32 KiB",
  \<open>chunks_per_segment\<close> "default 1024", compression "default ZLIB", \<open>bevy_number\<close> "starts
  at 0"; a new stream is empty and not dirty.\<close>

definition AFF4Image_new :: "string \<Rightarrow> AFF4Image" where
  "AFF4Image_new u =
     \<lparr>urn = u, volume_urn = [], chunk_size = 32768, chunks_per_segment = 1024,
      stream_size = 0, readptr = 0, compression = AFF4_IMAGE_COMPRESSION_ENUM_ZLIB,
      buffer = [], bevy = [], bevy_index = [], bevy_number = 0, chunk_count_in_bevy = 0,
      dirty = False\<rparr>"

text \<open>Stand-ins for the outside world in the closed examples below: a codec that puts one
  header byte before the data, a lexicon with three method names, and a read ceiling of
  100 MiB. The general theorems hold for every value of these parameters.\<close>

definition example_externals :: externals where
  "example_externals =
     \<lparr>compress2 = (\<lambda>d. (True, CHR ''Z'' # d)),
      inflate = (\<lambda>c. case c of [] \<Rightarrow> None
                         | x # d \<Rightarrow> if x = CHR ''Z'' then Some d else None),
      snappy_Compress = (\<lambda>d. CHR ''S'' # d),
      snappy_Uncompress = (\<lambda>c. case c of [] \<Rightarrow> None
                         | x # d \<Rightarrow> if x = CHR ''S'' then Some d else None),
      CompressionMethodFromURN =
        (\<lambda>u. if u = ''stored'' then AFF4_IMAGE_COMPRESSION_ENUM_STORED
             else if u = ''zlib'' then AFF4_IMAGE_COMPRESSION_ENUM_ZLIB
             else if u = ''snappy'' then AFF4_IMAGE_COMPRESSION_ENUM_SNAPPY
             else AFF4_IMAGE_COMPRESSION_ENUM_UNKNOWN),
      CompressionMethodToURN =
        (\<lambda>c. case c of
               AFF4_IMAGE_COMPRESSION_ENUM_STORED \<Rightarrow> ''stored''
             | AFF4_IMAGE_COMPRESSION_ENUM_ZLIB \<Rightarrow> ''zlib''
             | AFF4_IMAGE_COMPRESSION_ENUM_SNAPPY \<Rightarrow> ''snappy''
             | AFF4_IMAGE_COMPRESSION_ENUM_UNKNOWN \<Rightarrow> ''unknown''),
      AFF4_IMAGE_TYPE = ''image'',
      AFF4_MAX_READ_LEN = 104857600\<rparr>"

text \<open>The same codec, but \<^verbatim>\<open>compress2\<close> does not return \<^verbatim>\<open>Z_OK\<close> for the chunk \<^verbatim>\<open>"EFGH"\<close>
  (as when it runs out of memory); the bytes stand for what the output buffer then
  holds.\<close>

definition failing_compress_externals :: externals where
  "failing_compress_externals =
     example_externals\<lparr>compress2 :=
       (\<lambda>d. if d = ''EFGH'' then (False, ''garbage'') else (True, CHR ''Z'' # d))\<rparr>"

text \<open>A store whose volume \<open>vol\<close> opens and creates every member, and holds none yet.\<close>

definition example_store :: DataStore where
  "example_store =
     \<lparr>attributes = Map.empty, volumes = (\<lambda>u. u = ''vol''),
      can_create = (\<lambda>u. True), members = Map.empty\<rparr>"

text \<open>The fresh stream of scenario S1: \<open>chunk_size = 4\<close>, \<open>chunks_per_segment = 2\<close>, STORED.\<close>

definition example_image :: AFF4Image where
  "example_image =
     \<lparr>urn = ''img'', volume_urn = ''vol'', chunk_size = 4, chunks_per_segment = 2,
      stream_size = 0, readptr = 0, compression = AFF4_IMAGE_COMPRESSION_ENUM_STORED,
      buffer = [], bevy = [], bevy_index = [], bevy_number = 0, chunk_count_in_bevy = 0,
      dirty = False\<rparr>"

text \<open>The volume and the object of scenario S1 after \<^verbatim>\<open>Write("ABCDEFGHIJ")\<close> and \<^verbatim>\<open>Flush\<close>
  (the lemmas \<open>S1_Write\<close> and \<open>S1_Flush\<close> below show that they are).\<close>

definition S1_store :: DataStore where
  "S1_store =
     \<lparr>attributes =
        [(''img'', AFF4_TYPE) \<mapsto> URN ''image'',
         (''img'', AFF4_STORED) \<mapsto> URN ''vol'',
         (''img'', AFF4_IMAGE_CHUNK_SIZE) \<mapsto> XSDInteger 4,
         (''img'', AFF4_IMAGE_CHUNKS_PER_SEGMENT) \<mapsto> XSDInteger 2,
         (''img'', AFF4_STREAM_SIZE) \<mapsto> XSDInteger 10,
         (''img'', AFF4_IMAGE_COMPRESSION) \<mapsto> URN ''stored''],
      volumes = (\<lambda>u. u = ''vol''),
      can_create = (\<lambda>u. True),
      members =
        [''img/00000000/index'' \<mapsto>
           [CHR 0x00, CHR 0x00, CHR 0x00, CHR 0x00, CHR 0x04, CHR 0x00, CHR 0x00, CHR 0x00],
         ''img/00000000'' \<mapsto> ''ABCDEFGH'',
         ''img/00000001/index'' \<mapsto> [CHR 0x00, CHR 0x00, CHR 0x00, CHR 0x00],
         ''img/00000001'' \<mapsto> ''IJ'']\<rparr>"

definition S1_image :: AFF4Image where
  "S1_image =
     \<lparr>urn = ''img'', volume_urn = ''vol'', chunk_size = 4, chunks_per_segment = 2,
      stream_size = 10, readptr = 10, compression = AFF4_IMAGE_COMPRESSION_ENUM_STORED,
      buffer = [], bevy = [], bevy_index = [], bevy_number = 2, chunk_count_in_bevy = 0,
      dirty = False\<rparr>"

subsection \<open>Sequences of writes\<close>



text \<open>The statuses that the \<^verbatim>\<open>FlushChunk\<close> calls of the loop of \<^verbatim>\<open>Write\<close> return, in the
  order of the calls, for the bytes \<open>bs\<close> that the loop has before it; the first status
  that is not \<^verbatim>\<open>STATUS_OK\<close> is the last.\<close>

function flush_statuses ::
  "externals \<Rightarrow> DataStore \<Rightarrow> AFF4Image \<Rightarrow> bytes \<Rightarrow> AFF4Status list" where
  "flush_statuses e w s bs =
     (if chunk_size s = 0 \<or> length bs < chunk_size s then []
      else
        (case FlushChunk e w s (take (chunk_size s) bs) of
           (st, w', s') \<Rightarrow>
             st # (if st \<noteq> STATUS_OK then [] else flush_statuses e w' s' (drop (chunk_size s) bs))))"
  by pat_completeness auto
termination
  by (relation "measure (\<lambda>(e, w, s, bs). length bs)") auto

declare flush_statuses.simps [simp del]





section \<open>Evaluation\<close>

text \<open>Rules with which the simplifier runs the model on concrete inputs.\<close>

lemmas byte_ev = char_of_def bit_iff_odd_drop_bit drop_bit_eq_div

lemmas write_ev = Write_def Write_loop.simps FlushChunk_def FlushBevy_def compress_chunk_def
  CompressZlib_def CompressSnappy_def Flush_def AFF4Stream_Flush_def Set_def
  sio_Size_def sio_Tell_def sio_Write_def sio_Truncate_def urn_Append_def
  aff4_sprintf_08d_def decimal.simps u32_bytes_def uint32_def int32_def byte_ev Let_def

lemmas read_ev = Read_def Read_loop.simps ReadPartial.simps ReadPartial_inner.simps
  ReadChunkFromBevy_def compressed_chunk_size_def decompress_chunk_def
  DeCompressZlib_def DeCompressSnappy_def uncompress_def
  AFF4FactoryOpen_Stream_def m_Size_def m_Tell_def m_Seek_def m_Read_def
  resize_def size_t_def int32_def uint32_def urn_Append_def aff4_sprintf_08d_def
  decimal.simps byte_ev Let_def

lemmas ex_defs = example_image_def example_store_def example_externals_def


lemma S1_Write:
  "Write example_externals example_store example_image ''ABCDEFGHIJ'' =
     Some (10,
       example_store\<lparr>members :=
         [''img/00000000/index'' \<mapsto>
            [CHR 0x00, CHR 0x00, CHR 0x00, CHR 0x00, CHR 0x04, CHR 0x00, CHR 0x00, CHR 0x00],
          ''img/00000000'' \<mapsto> ''ABCDEFGH'']\<rparr>,
       example_image\<lparr>buffer := ''IJ'', bevy_number := 1, readptr := 10, stream_size := 10,
         dirty := True\<rparr>)"
  by (simp add: write_ev ex_defs)

lemma S1_Flush:
  "Flush example_externals
     (example_store\<lparr>members :=
         [''img/00000000/index'' \<mapsto>
            [CHR 0x00, CHR 0x00, CHR 0x00, CHR 0x00, CHR 0x04, CHR 0x00, CHR 0x00, CHR 0x00],
          ''img/00000000'' \<mapsto> ''ABCDEFGH'']\<rparr>)
     (example_image\<lparr>buffer := ''IJ'', bevy_number := 1, readptr := 10, stream_size := 10,
         dirty := True\<rparr>)
   = (STATUS_OK, S1_store, S1_image)"
  by (simp add: write_ev ex_defs S1_store_def S1_image_def)

section \<open>Properties of the stream engine\<close>

subsection \<open>Scenario S1\<close>

text \<open>
  C2 (scenario S1). With \<open>chunk_size = 4\<close>, \<open>chunks_per_segment = 2\<close> and STORED, after
  \<^verbatim>\<open>Write("ABCDEFGHIJ")\<close> and \<^verbatim>\<open>Flush()\<close> on the fresh stream the volume holds bevy 0 with
  the data member \<open>ABCDEFGH\<close> and an index member that encodes the little-endian
  \<^verbatim>\<open>uint32\<close> array \<open>[0, 4]\<close>, bevy 1 with the data member \<open>IJ\<close> and an index member that
  encodes \<open>[0]\<close>, and no other member; the size of the stream is 10 (in the object and in
  the resolver).
\<close>

theorem S1_layout:
  "case Write example_externals example_store example_image ''ABCDEFGHIJ'' of
     None \<Rightarrow> False
   | Some (n, w1, s1) \<Rightarrow>
       (case Flush example_externals w1 s1 of
          (st, w2, s2) \<Rightarrow>
            members w2 ''img/00000000'' = Some ''ABCDEFGH'' \<and>
            members w2 ''img/00000000/index'' =
              Some [CHR 0x00, CHR 0x00, CHR 0x00, CHR 0x00, CHR 0x04, CHR 0x00, CHR 0x00, CHR 0x00] \<and>
            map_option u32_array (members w2 ''img/00000000/index'') = Some [0, 4] \<and>
            members w2 ''img/00000001'' = Some ''IJ'' \<and>
            members w2 ''img/00000001/index'' = Some [CHR 0x00, CHR 0x00, CHR 0x00, CHR 0x00] \<and>
            map_option u32_array (members w2 ''img/00000001/index'') = Some [0] \<and>
            dom (members w2) =
              {''img/00000001'', ''img/00000001/index'', ''img/00000000'', ''img/00000000/index''} \<and>
            stream_size s2 = 10 \<and>
            attributes w2 (''img'', AFF4_STREAM_SIZE) = Some (XSDInteger 10))"
  by (simp add: write_ev ex_defs)

subsection \<open>Round trip\<close>

text \<open>
  C1 (round trip). The specification: after any writes and \<^verbatim>\<open>Flush\<close>, a \<^verbatim>\<open>Read\<close> from offset 0 of
  the whole length returns the bytes written, also when the length is a multiple of
  \<open>chunk_size\<close>. The code does not do that for STORED when the length is a multiple of
  \<open>chunk_size * chunks_per_segment\<close>. On the fresh stream of S1 (4-byte chunks, 2 per bevy),
  \<^verbatim>\<open>Write("ABCDEFGH")\<close> returns 8 and fills bevy 0. \<^verbatim>\<open>Flush\<close> then cuts the empty rest as one
  more chunk, whose STORED payload is empty, so \<^verbatim>\<open>bevy.Size() == 0\<close> and \<^verbatim>\<open>_FlushBevy\<close> writes
  no bevy 1. \<^verbatim>\<open>Read(8)\<close> asks for \<open>8 / 4 + 1 = 3\<close> chunks; the third is in bevy 1, which
  does not exist, so \<^verbatim>\<open>_ReadPartial\<close> returns \<open>-1\<close> and \<^verbatim>\<open>Read\<close> returns the empty string
  and leaves \<^verbatim>\<open>readptr\<close> at 0.
\<close>

theorem roundtrip_fails_at_full_bevy:
  "case Write example_externals example_store example_image ''ABCDEFGH'' of
     None \<Rightarrow> False
   | Some (n, w1, s1) \<Rightarrow>
       (case Flush example_externals w1 s1 of
          (st, w2, s2) \<Rightarrow>
            n = 8 \<and> st = STATUS_OK \<and> stream_size s2 = 8 \<and>
            members w2 ''img/00000000'' = Some ''ABCDEFGH'' \<and>
            members w2 ''img/00000001'' = None \<and>
            Read example_externals w2 (s2\<lparr>readptr := 0\<rparr>) 8 = Some ([], s2\<lparr>readptr := 0\<rparr>))"
  by (simp add: write_ev read_ev ex_defs)

subsection \<open>The compressed size of a chunk\<close>

text \<open>When the data member stands at the start of the last chunk of its bevy, as it does after
  the chunk before it has been read, the size computed is the size of the member minus that
  start.\<close>

lemma last_chunk_size_when_positioned:
  assumes "chunk_id_in_bevy = index_size - 1"
    and "m_Tell bevy_stream = bevy_index_array ! chunk_id_in_bevy"
    and "m_Tell bevy_stream \<le> m_Size bevy_stream" and "m_Size bevy_stream < 4294967296"
  shows "compressed_chunk_size bevy_stream bevy_index_array index_size chunk_id_in_bevy
           = m_Size bevy_stream - bevy_index_array ! chunk_id_in_bevy"
proof -
  have "(int (m_Size bevy_stream) - int (m_Tell bevy_stream)) mod 4294967296
          = int (m_Size bevy_stream - m_Tell bevy_stream)"
    using assms(3,4) by (simp add: of_nat_diff)
  with assms(1,2) show ?thesis
    by (simp add: compressed_chunk_size_def)
qed

text \<open>
  C5 (size of the last chunk of a bevy). The specification: for the last chunk \<open>j = index_len - 1\<close>
  of a bevy the compressed size used is the size of the data member minus \<open>index[j]\<close>,
  whichever chunk the \<^verbatim>\<open>Read\<close> starts at. The code computes
  \<^verbatim>\<open>bevy->Size() - bevy->Tell()\<close> before it seeks to \<open>index[j]\<close>. In the volume of S1 a
  \<^verbatim>\<open>Read\<close> at \<open>readptr = 4\<close> starts at chunk 1, the last chunk of bevy 0: the data member has
  just been opened, its position is 0, and the size computed is \<open>8 - 0 = 8\<close>, not
  \<open>8 - index[1] = 4\<close>. (The member holds only 4 bytes from offset 4 on, so the read that
  follows still delivers \<open>EFGH\<close>.)
\<close>

theorem last_chunk_size_from_stale_position:
  "case AFF4FactoryOpen_Stream S1_store ''img/00000000'' of
     None \<Rightarrow> False
   | Some bevy_stream \<Rightarrow>
       (case AFF4FactoryOpen_Stream S1_store ''img/00000000/index'' of
          None \<Rightarrow> False
        | Some bevy_index_stream \<Rightarrow>
            (let bevy_index_array =
                   u32_array (fst (m_Read bevy_index_stream (m_Size bevy_index_stream)));
                 index_size = uint32 (m_Size bevy_index_stream div 4);
                 chunk_id_in_bevy = (4 div chunk_size S1_image) mod chunks_per_segment S1_image
             in chunk_id_in_bevy = index_size - 1 \<and>
                compressed_chunk_size bevy_stream bevy_index_array index_size chunk_id_in_bevy = 8 \<and>
                m_Size bevy_stream - bevy_index_array ! chunk_id_in_bevy = 4 \<and>
                Read example_externals S1_store (S1_image\<lparr>readptr := 4\<rparr>) 4 =
                  Some (''EFGH'', S1_image\<lparr>readptr := 8\<rparr>)))"
  by (simp add: read_ev ex_defs S1_store_def S1_image_def)

subsection \<open>The bytes that \<^verbatim>\<open>Read\<close> returns\<close>

text \<open>
  C6 (no zero padding). The specification: a \<^verbatim>\<open>Read\<close> that completes without error returns only
  bytes decoded from chunks and never pads with zero bytes. The code reads
  \<open>length / chunk_size + 1\<close> chunks and then calls \<^verbatim>\<open>result.resize(length)\<close>. In the volume
  of S1, at \<open>readptr = 3\<close>, \<^verbatim>\<open>Read(6)\<close> reads \<open>6 / 4 + 1 = 2\<close> chunks (\<open>ABCDEFGH\<close>), erases the
  first 3 bytes and resizes the 5 bytes left to 6: it returns \<open>DEFGH\<close> followed by a zero
  byte, where the stream holds \<open>DEFGHI\<close>, and moves \<^verbatim>\<open>readptr\<close> to 9.
\<close>

theorem Read_pads_with_zero:
  "Read example_externals S1_store (S1_image\<lparr>readptr := 3\<rparr>) 6 =
     Some (''DEFGH'' @ [CHR 0x00], S1_image\<lparr>readptr := 9\<rparr>)"
  by (simp add: read_ev ex_defs S1_store_def S1_image_def)

text \<open>The reads of scenario S2, for comparison: the whole stream, a read inside it, and a
  read that is clamped at the end.\<close>

lemma S2_reads:
  "Read example_externals S1_store (S1_image\<lparr>readptr := 0\<rparr>) 10 =
     Some (''ABCDEFGHIJ'', S1_image\<lparr>readptr := 10\<rparr>)"
  "Read example_externals S1_store (S1_image\<lparr>readptr := 3\<rparr>) 4 =
     Some (''DEFG'', S1_image\<lparr>readptr := 7\<rparr>)"
  "Read example_externals S1_store (S1_image\<lparr>readptr := 8\<rparr>) 4 =
     Some (''IJ'', S1_image\<lparr>readptr := 10\<rparr>)"
  by (simp_all add: read_ev ex_defs S1_store_def S1_image_def)

subsection \<open>A failed bevy flush\<close>

text \<open>
  C9 (a failed bevy flush). When \<^verbatim>\<open>_FlushBevy\<close> is called with a non-empty builder
  (\<^verbatim>\<open>bevy.Size() != 0\<close>), it fails exactly when the volume cannot be opened or one of the
  two members cannot be created, the members being named by \<^verbatim>\<open>%08d\<close> of the counter read as
  an \<^verbatim>\<open>int\<close>; and when it fails, \<^verbatim>\<open>bevy_number\<close> has been incremented (by one, from
  \<open>2\<^sup>3\<^sup>2 - 1\<close> to 0) while nothing else in the object has changed (the data and index
  buffers and \<^verbatim>\<open>chunk_count_in_bevy\<close> are as before) and no member has been finalized in
  the volume.
\<close>

theorem FlushBevy_failure_consumes_bevy_number:
  assumes "sio_Size (bevy s) \<noteq> 0"
  shows "(fst (FlushBevy w s) \<noteq> STATUS_OK \<longleftrightarrow>
            \<not> volumes w (volume_urn s)
          \<or> \<not> can_create w
                (urn_Append (urn_Append (urn s) (aff4_sprintf_08d (int32 (int (bevy_number s)))))
                   ''index'')
          \<or> \<not> can_create w (urn_Append (urn s) (aff4_sprintf_08d (int32 (int (bevy_number s))))))
       \<and> (fst (FlushBevy w s) \<noteq> STATUS_OK \<longrightarrow>
            snd (FlushBevy w s) = (w, s\<lparr>bevy_number := uint32 (bevy_number s + 1)\<rparr>)
          \<and> (bevy_number s < 4294967295 \<longrightarrow>
               bevy_number (snd (snd (FlushBevy w s))) = bevy_number s + 1)
          \<and> (bevy_number s = 4294967295 \<longrightarrow> bevy_number (snd (snd (FlushBevy w s))) = 0)
          \<and> bevy (snd (snd (FlushBevy w s))) = bevy s
          \<and> bevy_index (snd (snd (FlushBevy w s))) = bevy_index s
          \<and> chunk_count_in_bevy (snd (snd (FlushBevy w s))) = chunk_count_in_bevy s
          \<and> members (fst (snd (FlushBevy w s))) = members w)"
  using assms by (simp add: FlushBevy_def Let_def uint32_def)

text \<open>Two failed flushes: the volume does not open; and, at bevy \<open>2\<^sup>3\<^sup>1\<close>, the member that
  \<^verbatim>\<open>%08d\<close> names with a minus sign cannot be created.\<close>

theorem FlushBevy_failure_consumes_bevy_number_witness:
  "sio_Size (bevy (example_image\<lparr>bevy := ''ABCD'', bevy_index := u32_bytes 0,
                     chunk_count_in_bevy := 1\<rparr>)) \<noteq> 0
   \<and> fst (FlushBevy (example_store\<lparr>volumes := (\<lambda>u. False)\<rparr>)
            (example_image\<lparr>bevy := ''ABCD'', bevy_index := u32_bytes 0,
               chunk_count_in_bevy := 1\<rparr>)) \<noteq> STATUS_OK
   \<and> snd (FlushBevy (example_store\<lparr>volumes := (\<lambda>u. False)\<rparr>)
            (example_image\<lparr>bevy := ''ABCD'', bevy_index := u32_bytes 0,
               chunk_count_in_bevy := 1\<rparr>))
       = (example_store\<lparr>volumes := (\<lambda>u. False)\<rparr>,
          example_image\<lparr>bevy := ''ABCD'', bevy_index := u32_bytes 0,
            chunk_count_in_bevy := 1, bevy_number := 1\<rparr>)
   \<and> fst (FlushBevy (example_store\<lparr>can_create := (\<lambda>u. u \<noteq> ''img/-2147483648'')\<rparr>)
            (example_image\<lparr>bevy := ''ABCD'', bevy_index := u32_bytes 0,
               chunk_count_in_bevy := 1, bevy_number := 2147483648\<rparr>)) \<noteq> STATUS_OK
   \<and> bevy_number (snd (snd
          (FlushBevy (example_store\<lparr>can_create := (\<lambda>u. u \<noteq> ''img/-2147483648'')\<rparr>)
            (example_image\<lparr>bevy := ''ABCD'', bevy_index := u32_bytes 0,
               chunk_count_in_bevy := 1, bevy_number := 2147483648\<rparr>)))) = 2147483649"
proof -
  let ?s = "example_image\<lparr>bevy := ''ABCD'', bevy_index := u32_bytes 0,
              chunk_count_in_bevy := 1\<rparr>"
  let ?w = "example_store\<lparr>volumes := (\<lambda>u. False)\<rparr>"
  let ?s' = "example_image\<lparr>bevy := ''ABCD'', bevy_index := u32_bytes 0,
              chunk_count_in_bevy := 1, bevy_number := 2147483648\<rparr>"
  let ?w' = "example_store\<lparr>can_create := (\<lambda>u. u \<noteq> ''img/-2147483648'')\<rparr>"
  have nonempty: "sio_Size (bevy ?s) \<noteq> 0"
    by (simp add: sio_Size_def)
  have closed: "\<not> volumes ?w (volume_urn ?s)"
    by simp
  from FlushBevy_failure_consumes_bevy_number [OF nonempty, of ?w] closed
  have first: "fst (FlushBevy ?w ?s) \<noteq> STATUS_OK"
    and "snd (FlushBevy ?w ?s) = (?w, ?s\<lparr>bevy_number := uint32 (bevy_number ?s + 1)\<rparr>)"
    by blast+
  then have first_state: "snd (FlushBevy ?w ?s) = (?w, ?s\<lparr>bevy_number := 1\<rparr>)"
    by (simp add: example_image_def uint32_def)
  have nonempty': "sio_Size (bevy ?s') \<noteq> 0"
    by (simp add: sio_Size_def)
  have name: "urn_Append (urn ?s') (aff4_sprintf_08d (int32 (int (bevy_number ?s'))))
                = ''img/-2147483648''"
    by (simp add: example_image_def urn_Append_def aff4_sprintf_08d_def int32_def
          decimal.simps byte_ev)
  have refused: "\<not> can_create ?w'
      (urn_Append (urn ?s') (aff4_sprintf_08d (int32 (int (bevy_number ?s')))))"
    unfolding name by simp
  from FlushBevy_failure_consumes_bevy_number [OF nonempty', of ?w'] refused
  have second: "fst (FlushBevy ?w' ?s') \<noteq> STATUS_OK"
    and "bevy_number ?s' < 4294967295 \<longrightarrow>
           bevy_number (snd (snd (FlushBevy ?w' ?s'))) = bevy_number ?s' + 1"
    by blast+
  then have second_state: "bevy_number (snd (snd (FlushBevy ?w' ?s'))) = 2147483649"
    by simp
  from nonempty first first_state second second_state show ?thesis
    by (simp add: example_image_def)
qed

subsection \<open>Loading the stream parameters\<close>

lemma LoadFromURN_stored:
  assumes "Get_URN w (urn s) AFF4_STORED = Some v"
  shows "\<exists>s4. urn s4 = urn s \<and> compression s4 = compression s \<and>
           LoadFromURN e w s =
             (case Get_URN w (urn s) AFF4_IMAGE_COMPRESSION of
                Some cu \<Rightarrow>
                  (if CompressionMethodFromURN e cu = AFF4_IMAGE_COMPRESSION_ENUM_UNKNOWN
                   then NOT_IMPLEMENTED else STATUS_OK,
                   s4\<lparr>compression := CompressionMethodFromURN e cu\<rparr>)
              | None \<Rightarrow> (STATUS_OK, s4))"
proof -
  define s1 where "s1 = s\<lparr>volume_urn := v\<rparr>"
  define s2 where "s2 = (case Get_XSDInteger w (urn s1) AFF4_IMAGE_CHUNK_SIZE of
                      Some n \<Rightarrow> s1\<lparr>chunk_size := n\<rparr> | None \<Rightarrow> s1)"
  define s3 where "s3 = (case Get_XSDInteger w (urn s2) AFF4_IMAGE_CHUNKS_PER_SEGMENT of
                      Some n \<Rightarrow> s2\<lparr>chunks_per_segment := n\<rparr> | None \<Rightarrow> s2)"
  define s4 where "s4 = (case Get_XSDInteger w (urn s3) AFF4_STREAM_SIZE of
                      Some n \<Rightarrow> s3\<lparr>stream_size := n\<rparr> | None \<Rightarrow> s3)"
  have 1: "urn s1 = urn s" "compression s1 = compression s"
    by (simp_all add: s1_def)
  have 2: "urn s2 = urn s" "compression s2 = compression s"
    using 1 by (simp_all add: s2_def split: option.split)
  have 3: "urn s3 = urn s" "compression s3 = compression s"
    using 2 by (simp_all add: s3_def split: option.split)
  have 4: "urn s4 = urn s" "compression s4 = compression s"
    using 3 by (simp_all add: s4_def split: option.split)
  have "LoadFromURN e w s =
          (case Get_URN w (urn s4) AFF4_IMAGE_COMPRESSION of
             Some cu \<Rightarrow>
               (if CompressionMethodFromURN e cu = AFF4_IMAGE_COMPRESSION_ENUM_UNKNOWN
                then NOT_IMPLEMENTED else STATUS_OK,
                s4\<lparr>compression := CompressionMethodFromURN e cu\<rparr>)
           | None \<Rightarrow> (STATUS_OK, s4))"
    unfolding LoadFromURN_def assms option.case Let_def
      s1_def [symmetric] s2_def [symmetric] s3_def [symmetric] s4_def [symmetric]
    by (simp split: option.split)
  with 4 show ?thesis by auto
qed

text \<open>
  C8 (the load contract). \<^verbatim>\<open>LoadFromURN\<close> returns \<^verbatim>\<open>NOT_FOUND\<close> (and leaves the object as
  it is) when the resolver has no stored-in URN for the stream. When it has one and a
  compression URN is recorded that \<^verbatim>\<open>CompressionMethodFromURN\<close> maps to no known method,
  it returns \<^verbatim>\<open>NOT_IMPLEMENTED\<close>, with the compression field left at \<^verbatim>\<open>UNKNOWN\<close> (no
  default is put in its place). When no compression URN is recorded it returns
  \<^verbatim>\<open>STATUS_OK\<close> and does not touch the compression field, which is ZLIB in a new object.
\<close>

theorem LoadFromURN_contract:
  "(Get_URN w (urn s) AFF4_STORED = None \<longrightarrow> LoadFromURN e w s = (NOT_FOUND, s))
   \<and> (Get_URN w (urn s) AFF4_STORED \<noteq> None \<longrightarrow>
        Get_URN w (urn s) AFF4_IMAGE_COMPRESSION = Some u \<longrightarrow>
        CompressionMethodFromURN e u = AFF4_IMAGE_COMPRESSION_ENUM_UNKNOWN \<longrightarrow>
          fst (LoadFromURN e w s) = NOT_IMPLEMENTED
        \<and> compression (snd (LoadFromURN e w s)) = AFF4_IMAGE_COMPRESSION_ENUM_UNKNOWN)
   \<and> (Get_URN w (urn s) AFF4_STORED \<noteq> None \<longrightarrow>
        Get_URN w (urn s) AFF4_IMAGE_COMPRESSION = None \<longrightarrow>
          fst (LoadFromURN e w s) = STATUS_OK
        \<and> compression (snd (LoadFromURN e w s)) = compression s)
   \<and> (Get_URN w u0 AFF4_STORED \<noteq> None \<longrightarrow>
        Get_URN w u0 AFF4_IMAGE_COMPRESSION = None \<longrightarrow>
          fst (LoadFromURN e w (AFF4Image_new u0)) = STATUS_OK
        \<and> compression (snd (LoadFromURN e w (AFF4Image_new u0)))
            = AFF4_IMAGE_COMPRESSION_ENUM_ZLIB)"
proof (intro conjI impI)
  assume "Get_URN w (urn s) AFF4_STORED = None"
  then show "LoadFromURN e w s = (NOT_FOUND, s)"
    by (simp add: LoadFromURN_def)
next
  assume "Get_URN w (urn s) AFF4_STORED \<noteq> None"
    and c: "Get_URN w (urn s) AFF4_IMAGE_COMPRESSION = Some u"
      "CompressionMethodFromURN e u = AFF4_IMAGE_COMPRESSION_ENUM_UNKNOWN"
  then obtain v where "Get_URN w (urn s) AFF4_STORED = Some v" by auto
  from LoadFromURN_stored [OF this, of e] c
  show "fst (LoadFromURN e w s) = NOT_IMPLEMENTED"
    and "compression (snd (LoadFromURN e w s)) = AFF4_IMAGE_COMPRESSION_ENUM_UNKNOWN"
    by auto
next
  assume "Get_URN w (urn s) AFF4_STORED \<noteq> None"
    and c: "Get_URN w (urn s) AFF4_IMAGE_COMPRESSION = None"
  then obtain v where "Get_URN w (urn s) AFF4_STORED = Some v" by auto
  from LoadFromURN_stored [OF this, of e] c
  show "fst (LoadFromURN e w s) = STATUS_OK"
    and "compression (snd (LoadFromURN e w s)) = compression s"
    by auto
next
  let ?s = "AFF4Image_new u0"
  have u: "urn ?s = u0" and z: "compression ?s = AFF4_IMAGE_COMPRESSION_ENUM_ZLIB"
    by (simp_all add: AFF4Image_new_def)
  assume "Get_URN w u0 AFF4_STORED \<noteq> None"
    and c: "Get_URN w u0 AFF4_IMAGE_COMPRESSION = None"
  then obtain v where "Get_URN w (urn ?s) AFF4_STORED = Some v" using u by auto
  from LoadFromURN_stored [OF this, of e] c u z
  show "fst (LoadFromURN e w ?s) = STATUS_OK"
    and "compression (snd (LoadFromURN e w ?s)) = AFF4_IMAGE_COMPRESSION_ENUM_ZLIB"
    by auto
qed

theorem LoadFromURN_contract_witness:
  "LoadFromURN example_externals example_store (AFF4Image_new ''img'')
     = (NOT_FOUND, AFF4Image_new ''img'')
   \<and> fst (LoadFromURN example_externals
            (example_store\<lparr>attributes :=
               [(''img'', AFF4_STORED) \<mapsto> URN ''vol'',
                (''img'', AFF4_IMAGE_COMPRESSION) \<mapsto> URN ''lz4'']\<rparr>)
            (AFF4Image_new ''img'')) = NOT_IMPLEMENTED
   \<and> compression (snd (LoadFromURN example_externals
            (example_store\<lparr>attributes :=
               [(''img'', AFF4_STORED) \<mapsto> URN ''vol'',
                (''img'', AFF4_IMAGE_COMPRESSION) \<mapsto> URN ''lz4'']\<rparr>)
            (AFF4Image_new ''img''))) = AFF4_IMAGE_COMPRESSION_ENUM_UNKNOWN
   \<and> fst (LoadFromURN example_externals
            (example_store\<lparr>attributes := [(''img'', AFF4_STORED) \<mapsto> URN ''vol'']\<rparr>)
            (AFF4Image_new ''img'')) = STATUS_OK
   \<and> compression (snd (LoadFromURN example_externals
            (example_store\<lparr>attributes := [(''img'', AFF4_STORED) \<mapsto> URN ''vol'']\<rparr>)
            (AFF4Image_new ''img''))) = AFF4_IMAGE_COMPRESSION_ENUM_ZLIB"
proof -
  let ?e = example_externals
  let ?s = "AFF4Image_new ''img''"
  let ?wb = "example_store\<lparr>attributes :=
               [(''img'', AFF4_STORED) \<mapsto> URN ''vol'',
                (''img'', AFF4_IMAGE_COMPRESSION) \<mapsto> URN ''lz4'']\<rparr>"
  let ?wc = "example_store\<lparr>attributes := [(''img'', AFF4_STORED) \<mapsto> URN ''vol'']\<rparr>"
  have u: "urn ?s = ''img''"
    by (simp add: AFF4Image_new_def)
  have a: "Get_URN example_store (urn ?s) AFF4_STORED = None"
    by (simp add: Get_URN_def example_store_def)
  have b: "Get_URN ?wb (urn ?s) AFF4_STORED \<noteq> None"
    "Get_URN ?wb (urn ?s) AFF4_IMAGE_COMPRESSION = Some ''lz4''"
    "CompressionMethodFromURN ?e ''lz4'' = AFF4_IMAGE_COMPRESSION_ENUM_UNKNOWN"
    by (simp_all add: Get_URN_def u example_externals_def)
  have c: "Get_URN ?wc ''img'' AFF4_STORED \<noteq> None"
    "Get_URN ?wc ''img'' AFF4_IMAGE_COMPRESSION = None"
    by (simp_all add: Get_URN_def)
  from LoadFromURN_contract [where w = example_store and s = ?s and e = ?e] a
  have 1: "LoadFromURN ?e example_store ?s = (NOT_FOUND, ?s)"
    by blast
  from LoadFromURN_contract [where w = ?wb and s = ?s and e = ?e and u = "''lz4''"] b
  have 2: "fst (LoadFromURN ?e ?wb ?s) = NOT_IMPLEMENTED
        \<and> compression (snd (LoadFromURN ?e ?wb ?s)) = AFF4_IMAGE_COMPRESSION_ENUM_UNKNOWN"
    by blast
  from LoadFromURN_contract [where w = ?wc and e = ?e and ?u0.0 = "''img''"] c
  have 3: "fst (LoadFromURN ?e ?wc ?s) = STATUS_OK
        \<and> compression (snd (LoadFromURN ?e ?wc ?s)) = AFF4_IMAGE_COMPRESSION_ENUM_ZLIB"
    by blast
  from 1 2 3 show ?thesis by simp
qed

subsection \<open>The length of a decoded ZLIB chunk\<close>

text \<open>
  C10 (a ZLIB chunk is at most \<open>chunk_size\<close> bytes). For ZLIB the decoder is called with an
  output room of exactly \<open>chunk_size\<close> bytes (\<open>uncompress e (chunk_size s)\<close>). So, for a
  chunk that the index holds: when the compressed bytes read for it decompress to more
  than \<open>chunk_size\<close> bytes, \<^verbatim>\<open>_ReadChunkFromBevy\<close> returns \<^verbatim>\<open>IO_ERROR\<close> and appends nothing;
  it either returns \<^verbatim>\<open>IO_ERROR\<close> or appends the decoder's output, of at most \<open>chunk_size\<close>
  bytes; and whatever it returns, \<^verbatim>\<open>result\<close> has grown by at most \<open>chunk_size\<close> bytes.
\<close>

theorem zlib_chunk_bounded_by_chunk_size:
  assumes "compression s = AFF4_IMAGE_COMPRESSION_ENUM_ZLIB"
    and "chunks_per_segment s \<noteq> 0"
    and "chunk_id mod chunks_per_segment s < index_size"
  shows "let j = chunk_id mod chunks_per_segment s;
             positioned = m_Seek bevy_stream (bevy_index_array ! j);
             n = compressed_chunk_size bevy_stream bevy_index_array index_size j;
             cbuffer = fst (m_Read positioned n);
             bevy_stream' = snd (m_Read positioned n);
             r = ReadChunkFromBevy e s result chunk_id bevy_stream bevy_index_array index_size
         in (\<forall>out. inflate e cbuffer = Some out \<longrightarrow> chunk_size s < length out \<longrightarrow>
                r = Some (IO_ERROR, result, bevy_stream'))
          \<and> (r = Some (IO_ERROR, result, bevy_stream')
              \<or> (\<exists>out. uncompress e (chunk_size s) cbuffer = Some out
                       \<and> length out \<le> chunk_size s
                       \<and> r = Some (STATUS_OK, result @ out, bevy_stream')))
          \<and> (\<forall>st result' b'. r = Some (st, result', b') \<longrightarrow>
                length result' \<le> length result + chunk_size s)"
  using assms
  by (auto simp add: ReadChunkFromBevy_def decompress_chunk_def DeCompressZlib_def
        uncompress_def Let_def split: option.splits prod.splits if_splits)

theorem zlib_chunk_bounded_by_chunk_size_witness:
  "ReadChunkFromBevy example_externals
     (example_image\<lparr>compression := AFF4_IMAGE_COMPRESSION_ENUM_ZLIB\<rparr>) ''ab'' 0
     \<lparr>m_data = ''ZABCDEF'', m_readptr = 0\<rparr> [0] 1
   = Some (IO_ERROR, ''ab'', \<lparr>m_data = ''ZABCDEF'', m_readptr = 7\<rparr>)"
proof -
  let ?s = "example_image\<lparr>compression := AFF4_IMAGE_COMPRESSION_ENUM_ZLIB\<rparr>"
  let ?b = "\<lparr>m_data = ''ZABCDEF'', m_readptr = 0\<rparr>"
  have 1: "compression ?s = AFF4_IMAGE_COMPRESSION_ENUM_ZLIB" by simp
  have 2: "chunks_per_segment ?s \<noteq> 0" by (simp add: example_image_def)
  have 3: "0 mod chunks_per_segment ?s < (1::nat)" by simp
  have cb: "fst (m_Read (m_Seek ?b ([0] ! (0 mod chunks_per_segment ?s)))
                 (compressed_chunk_size ?b [0] 1 (0 mod chunks_per_segment ?s))) = ''ZABCDEF''"
    "snd (m_Read (m_Seek ?b ([0] ! (0 mod chunks_per_segment ?s)))
                 (compressed_chunk_size ?b [0] 1 (0 mod chunks_per_segment ?s)))
       = \<lparr>m_data = ''ZABCDEF'', m_readptr = 7\<rparr>"
    by (simp_all add: m_Read_def m_Seek_def compressed_chunk_size_def m_Size_def m_Tell_def
          Let_def)
  have big: "inflate example_externals ''ZABCDEF'' = Some ''ABCDEF''"
    "chunk_size ?s < length ''ABCDEF''"
    by (simp_all add: example_externals_def example_image_def)
  from zlib_chunk_bounded_by_chunk_size [OF 1 2 3, of ?b "[0]" example_externals "''ab''"]
  show ?thesis
    unfolding Let_def cb using big by blast
qed

subsection \<open>What \<^verbatim>\<open>Write\<close> returns\<close>

lemma FlushBevy_frame:
  assumes "FlushBevy w s = (st, w', s')"
  shows "buffer s' = buffer s" "chunk_size s' = chunk_size s"
    "chunks_per_segment s' = chunks_per_segment s" "readptr s' = readptr s"
    "stream_size s' = stream_size s" "dirty s' = dirty s" "compression s' = compression s"
    "urn s' = urn s" "volume_urn s' = volume_urn s"
    "volumes w' = volumes w" "can_create w' = can_create w" "attributes w' = attributes w"
  using assms by (auto simp add: FlushBevy_def Let_def split: if_splits)

lemma FlushChunk_frame:
  assumes "FlushChunk e w s d = (st, w', s')"
  shows "buffer s' = buffer s" "chunk_size s' = chunk_size s"
    "chunks_per_segment s' = chunks_per_segment s" "readptr s' = readptr s"
    "stream_size s' = stream_size s" "dirty s' = dirty s" "compression s' = compression s"
    "urn s' = urn s" "volume_urn s' = volume_urn s"
    "volumes w' = volumes w" "can_create w' = can_create w" "attributes w' = attributes w"
proof -
  have "buffer s' = buffer s \<and> chunk_size s' = chunk_size s \<and>
    chunks_per_segment s' = chunks_per_segment s \<and> readptr s' = readptr s \<and>
    stream_size s' = stream_size s \<and> dirty s' = dirty s \<and> compression s' = compression s \<and>
    urn s' = urn s \<and> volume_urn s' = volume_urn s \<and>
    volumes w' = volumes w \<and> can_create w' = can_create w \<and> attributes w' = attributes w"
  proof (cases "compress_chunk e s d")
    case None
    with assms show ?thesis by (simp add: FlushChunk_def)
  next
    case (Some p)
    obtain result outp where p: "p = (result, outp)" by (cases p)
    let ?s3 = "s\<lparr>bevy_index := sio_Write (bevy_index s) (u32_bytes (uint32 (sio_Tell (bevy s)))),
                 bevy := sio_Write (bevy s) outp,
                 chunk_count_in_bevy := chunk_count_in_bevy s + 1\<rparr>"
    show ?thesis
    proof (cases "chunks_per_segment s \<le> chunk_count_in_bevy s + 1")
      case True
      with assms Some p have "FlushBevy w ?s3 = (st, w', s')"
        by (simp add: FlushChunk_def Let_def)
      from FlushBevy_frame [OF this] show ?thesis by simp
    next
      case False
      with assms Some p show ?thesis
        by (auto simp add: FlushChunk_def Let_def)
    qed
  qed
  then show "buffer s' = buffer s" "chunk_size s' = chunk_size s"
    "chunks_per_segment s' = chunks_per_segment s" "readptr s' = readptr s"
    "stream_size s' = stream_size s" "dirty s' = dirty s" "compression s' = compression s"
    "urn s' = urn s" "volume_urn s' = volume_urn s"
    "volumes w' = volumes w" "can_create w' = can_create w" "attributes w' = attributes w"
    by simp_all
qed

lemma Write_loop_returns:
  assumes "0 < chunk_size s"
  shows "\<exists>ok w' s' off'. Write_loop e w s off = Some (ok, w', s', off')
           \<and> readptr s' = readptr s \<and> stream_size s' = stream_size s
           \<and> buffer s' = buffer s \<and> chunk_size s' = chunk_size s"
  using assms
proof (induction "length (buffer s) - off" arbitrary: w s off rule: less_induct)
  case less
  show ?case
  proof (cases "chunk_size s \<le> length (buffer s) - off")
    case False
    then show ?thesis by (subst Write_loop.simps) auto
  next
    case True
    obtain st w1 s1 where
      fc: "FlushChunk e w s (take (chunk_size s) (drop off (buffer s))) = (st, w1, s1)"
      by (cases "FlushChunk e w s (take (chunk_size s) (drop off (buffer s)))") auto
    note fr = FlushChunk_frame [OF fc]
    show ?thesis
    proof (cases "st = STATUS_OK")
      case False
      with True fc fr show ?thesis by (subst Write_loop.simps) auto
    next
      case ok: True
      have smaller: "length (buffer s1) - (off + chunk_size s) < length (buffer s) - off"
        using True less.prems fr by simp
      have pos: "0 < chunk_size s1"
        using less.prems fr by simp
      from less.hyps [OF smaller pos, of w1] obtain ok' w' s' off' where
        rec: "Write_loop e w1 s1 (off + chunk_size s) = Some (ok', w', s', off')"
          "readptr s' = readptr s1" "stream_size s' = stream_size s1"
          "buffer s' = buffer s1" "chunk_size s' = chunk_size s1"
        by blast
      have "Write_loop e w s off = Write_loop e w1 s1 (off + chunk_size s)"
        using True fc ok by (subst Write_loop.simps) simp
      with rec fr show ?thesis by simp
    qed
  qed
qed

text \<open>In terms of the statuses that its \<^verbatim>\<open>FlushChunk\<close> calls return, \<^verbatim>\<open>Write\<close> returns the
  length of the data when all of them are \<^verbatim>\<open>STATUS_OK\<close>, and 0 otherwise; \<^verbatim>\<open>readptr\<close> and
  \<^verbatim>\<open>size\<close> follow the length in the first case and are as before in the second.\<close>

lemma Write_loop_by_statuses:
  assumes "0 < chunk_size s"
  shows "\<exists>w' s' off'. Write_loop e w s off
           = Some (list_all (\<lambda>st. st = STATUS_OK) (flush_statuses e w s (drop off (buffer s))),
                   w', s', off')"
  using assms
proof (induction "length (buffer s) - off" arbitrary: w s off rule: less_induct)
  case less
  show ?case
  proof (cases "chunk_size s \<le> length (buffer s) - off")
    case False
    then show ?thesis
      by (subst Write_loop.simps, subst flush_statuses.simps) auto
  next
    case True
    obtain st w1 s1 where
      fc: "FlushChunk e w s (take (chunk_size s) (drop off (buffer s))) = (st, w1, s1)"
      by (cases "FlushChunk e w s (take (chunk_size s) (drop off (buffer s)))") auto
    note fr = FlushChunk_frame [OF fc]
    show ?thesis
    proof (cases "st = STATUS_OK")
      case False
      with True fc less.prems show ?thesis
        by (subst Write_loop.simps, subst flush_statuses.simps) auto
    next
      case ok: True
      have smaller: "length (buffer s1) - (off + chunk_size s) < length (buffer s) - off"
        using True less.prems fr by simp
      have pos: "0 < chunk_size s1"
        using less.prems fr by simp
      from less.hyps [OF smaller pos, of w1] obtain w' s' off' where
        rec: "Write_loop e w1 s1 (off + chunk_size s)
               = Some (list_all (\<lambda>st. st = STATUS_OK)
                        (flush_statuses e w1 s1 (drop (off + chunk_size s) (buffer s1))),
                       w', s', off')"
        by blast
      have 1: "Write_loop e w s off = Write_loop e w1 s1 (off + chunk_size s)"
        using True fc ok by (subst Write_loop.simps) simp
      have 2: "flush_statuses e w s (drop off (buffer s))
                 = STATUS_OK # flush_statuses e w1 s1 (drop (off + chunk_size s) (buffer s1))"
        using True fc ok less.prems fr
        by (subst flush_statuses.simps) (simp add: add.commute)
      from 1 2 rec show ?thesis by simp
    qed
  qed
qed

lemma Write_by_FlushChunk_statuses:
  assumes "0 < chunk_size s"
  shows "if list_all (\<lambda>st. st = STATUS_OK)
              (flush_statuses e w (s\<lparr>dirty := True, buffer := buffer s @ data\<rparr>) (buffer s @ data))
         then \<exists>w' s'. Write e w s data = Some (int (length data), w', s')
                \<and> readptr s' = readptr s + length data
                \<and> stream_size s' = max (stream_size s) (readptr s + length data)
         else \<exists>w' s'. Write e w s data = Some (0, w', s')
                \<and> readptr s' = readptr s \<and> stream_size s' = stream_size s"
proof -
  let ?s1 = "s\<lparr>dirty := True, buffer := buffer s @ data\<rparr>"
  have pos: "0 < chunk_size ?s1" using assms by simp
  from Write_loop_by_statuses [OF pos, of e w 0] obtain w' s2 offset where
    loop: "Write_loop e w ?s1 0
            = Some (list_all (\<lambda>st. st = STATUS_OK) (flush_statuses e w ?s1 (buffer s @ data)),
                    w', s2, offset)"
    by auto
  from Write_loop_returns [OF pos, of e w 0] loop
  have fr: "readptr s2 = readptr s" "stream_size s2 = stream_size s"
    by auto
  from loop fr show ?thesis
    by (auto simp add: Write_def Let_def max_def)
qed

text \<open>
  C7 (what \<^verbatim>\<open>Write\<close> returns). The specification: \<^verbatim>\<open>Write\<close> returns the length when every
  chunk flush of the call succeeds, and 0 when any chunk flush fails. The code does not
  return 0 for every chunk flush that fails. \<^verbatim>\<open>FlushChunk\<close> keeps the status of the
  compression in \<^verbatim>\<open>result\<close> and returns it at its end, but for the chunk that fills the
  bevy it leaves through \<^verbatim>\<open>return _FlushBevy()\<close>, and the status is lost. With 4-byte
  chunks, 2 per bevy, and ZLIB, let \<^verbatim>\<open>compress2\<close> fail on the second chunk of
  \<^verbatim>\<open>Write("ABCDEFGH")\<close>: \<^verbatim>\<open>CompressZlib_\<close> returns \<^verbatim>\<open>MEMORY_ERROR\<close>, yet \<^verbatim>\<open>Write\<close> returns 8,
  advances \<^verbatim>\<open>readptr\<close> and \<^verbatim>\<open>size\<close> to 8, and bevy 0 is persisted with the contents of the
  output buffer of the failed compression. With 3 chunks per bevy the same failure does
  not fill the bevy, and \<^verbatim>\<open>Write\<close> returns 0.
\<close>

theorem Write_masks_compression_failure:
  "CompressZlib failing_compress_externals ''EFGH'' = (MEMORY_ERROR, ''garbage'')
   \<and> (case Write failing_compress_externals example_store
             (example_image\<lparr>compression := AFF4_IMAGE_COMPRESSION_ENUM_ZLIB\<rparr>) ''ABCDEFGH'' of
        None \<Rightarrow> False
      | Some (n, w', s') \<Rightarrow>
          n = 8 \<and> readptr s' = 8 \<and> stream_size s' = 8 \<and> buffer s' = [] \<and>
          members w' ''img/00000000'' = Some ''ZABCDgarbage'')
   \<and> (case Write failing_compress_externals example_store
             (example_image\<lparr>compression := AFF4_IMAGE_COMPRESSION_ENUM_ZLIB,
                chunks_per_segment := 3\<rparr>) ''ABCDEFGH'' of
        None \<Rightarrow> False
      | Some (n, w', s') \<Rightarrow> n = 0 \<and> readptr s' = 0 \<and> stream_size s' = 0)"
  by (simp add: write_ev ex_defs failing_compress_externals_def)

subsection \<open>A failed read\<close>

lemma status_code_negative: "st \<noteq> STATUS_OK \<Longrightarrow> status_code st < 0"
  by (cases st) simp_all

lemma ReadChunkFromBevy_index_errors:
  assumes "chunks_per_segment s \<noteq> 0"
    and "index_size = 0 \<or> index_size \<le> chunk_id mod chunks_per_segment s"
  shows "ReadChunkFromBevy e s result chunk_id b arr index_size = Some (IO_ERROR, result, b)"
  using assms by (auto simp add: ReadChunkFromBevy_def Let_def)



lemma ReadPartial_inner_Returned_negative:
  "ReadPartial_inner e s bevy_id b arr isz chunk_id chunks_to_read chunks_read result
     = Some (Returned v result') \<Longrightarrow> v < 0"
proof (induction e s bevy_id b arr isz chunk_id chunks_to_read chunks_read result
       rule: ReadPartial_inner.induct)
  case (1 e s bevy_id b arr isz chunk_id chunks_to_read chunks_read result)
  from "1.prems" have more: "0 < chunks_to_read"
    by (subst (asm) ReadPartial_inner.simps) (auto split: if_splits)
  with "1.prems" obtain res r1 b1 where
    rc: "ReadChunkFromBevy e s result chunk_id b arr isz = Some (res, r1, b1)"
    by (subst (asm) ReadPartial_inner.simps) (auto split: option.splits)
  show ?case
  proof (cases "res = STATUS_OK")
    case False
    with "1.prems" more rc have "v = status_code res"
      by (subst (asm) ReadPartial_inner.simps) simp
    with False show ?thesis by (simp add: status_code_negative)
  next
    case True
    note ok = this
    show ?thesis
    proof (cases "bevy_id < uint32 (chunk_id + 1) div chunks_per_segment s")
      case True
      with "1.prems" more rc ok show ?thesis
        by (subst (asm) ReadPartial_inner.simps) simp
    next
      case False
      with "1.prems" more rc ok have
        "ReadPartial_inner e s bevy_id b1 arr isz (uint32 (chunk_id + 1)) (chunks_to_read - 1)
           (chunks_read + 1) r1 = Some (Returned v result')"
        by (subst (asm) ReadPartial_inner.simps) simp
      with "1.IH" [of "(res, r1, b1)" res "(r1, b1)" r1 b1] more rc ok False
      show ?thesis by simp
    qed
  qed
qed

lemma ReadPartial_inner_Left_count:
  "ReadPartial_inner e s bevy_id b arr isz chunk_id chunks_to_read chunks_read result
     = Some (Left chunk_id' chunks_to_read' chunks_read' result')
   \<Longrightarrow> chunks_to_read' + chunks_read' = chunks_to_read + chunks_read
       \<and> (0 < chunks_to_read \<longrightarrow> 0 \<le> chunks_to_read')"
proof (induction e s bevy_id b arr isz chunk_id chunks_to_read chunks_read result
       rule: ReadPartial_inner.induct)
  case (1 e s bevy_id b arr isz chunk_id chunks_to_read chunks_read result)
  show ?case
  proof (cases "0 < chunks_to_read")
    case False
    with "1.prems" show ?thesis
      by (subst (asm) ReadPartial_inner.simps) simp
  next
    case True
    note more = this
    with "1.prems" obtain res r1 b1 where
      rc: "ReadChunkFromBevy e s result chunk_id b arr isz = Some (res, r1, b1)"
      by (subst (asm) ReadPartial_inner.simps) (auto split: option.splits)
    from "1.prems" more rc have ok: "res = STATUS_OK"
      by (subst (asm) ReadPartial_inner.simps) (auto split: if_splits)
    show ?thesis
    proof (cases "bevy_id < uint32 (chunk_id + 1) div chunks_per_segment s")
      case True
      with "1.prems" more rc ok show ?thesis
        by (subst (asm) ReadPartial_inner.simps) auto
    next
      case False
      with "1.prems" more rc ok have rec:
        "ReadPartial_inner e s bevy_id b1 arr isz (uint32 (chunk_id + 1)) (chunks_to_read - 1)
           (chunks_read + 1) r1 = Some (Left chunk_id' chunks_to_read' chunks_read' result')"
        by (subst (asm) ReadPartial_inner.simps) simp
      from "1.IH" [of "(res, r1, b1)" res "(r1, b1)" r1 b1] more rc ok False rec
      have "chunks_to_read' + chunks_read' = chunks_to_read - 1 + (chunks_read + 1)"
        and "0 < chunks_to_read - 1 \<longrightarrow> 0 \<le> chunks_to_read'"
        by simp_all
      moreover have "chunks_to_read' = chunks_to_read - 1" if "\<not> 0 < chunks_to_read - 1"
        using rec that by (subst (asm) ReadPartial_inner.simps) simp
      ultimately show ?thesis using more by auto
    qed
  qed
qed

lemma ReadPartial_negative_or_complete:
  "ReadPartial e w s chunk_id chunks_to_read chunks_read result = Some (k, result')
   \<Longrightarrow> k < 0 \<or> k = chunks_read + max 0 chunks_to_read"
proof (induction e w s chunk_id chunks_to_read chunks_read result
       rule: ReadPartial.induct)
  case (1 e w s chunk_id chunks_to_read chunks_read result)
  show ?case
  proof (cases "0 < chunks_to_read")
    case False
    with "1.prems" show ?thesis
      by (subst (asm) ReadPartial.simps) simp
  next
    case True
    note more = this
    from "1.prems" more have cps: "chunks_per_segment s \<noteq> 0"
      by (subst (asm) ReadPartial.simps) (auto split: if_splits)
    let ?bevy_id = "chunk_id div chunks_per_segment s"
    let ?bevy_urn = "urn_Append (urn s) (aff4_sprintf_08d (int32 (int ?bevy_id)))"
    let ?index_urn = "urn_Append ?bevy_urn ''index''"
    show ?thesis
    proof (cases "AFF4FactoryOpen_Stream w ?index_urn")
      case None
      with "1.prems" more cps show ?thesis
        by (subst (asm) ReadPartial.simps) (simp add: Let_def)
    next
      case (Some bi)
      note index = this
      show ?thesis
      proof (cases "AFF4FactoryOpen_Stream w ?bevy_urn")
        case None
        with "1.prems" more cps index show ?thesis
          by (subst (asm) ReadPartial.simps) (simp add: Let_def)
      next
        case (Some bs)
        let ?isz = "uint32 (m_Size bi div 4)"
        let ?arr = "u32_array (fst (m_Read bi (m_Size bi)))"
        let ?inner = "ReadPartial_inner e s ?bevy_id bs ?arr ?isz chunk_id chunks_to_read
                        chunks_read result"
        from "1.prems" more cps index Some have unfolded:
          "(case ?inner of
              None \<Rightarrow> None
            | Some (Returned res r) \<Rightarrow> Some (res, r)
            | Some (Left c n cr r) \<Rightarrow> ReadPartial e w s c n cr r) = Some (k, result')"
          by (subst (asm) ReadPartial.simps) (simp add: Let_def)
        then obtain x where inner: "?inner = Some x"
          by (cases ?inner) auto
        show ?thesis
        proof (cases x)
          case (Returned v r)
          with unfolded inner have "k = v" by simp
          with ReadPartial_inner_Returned_negative inner Returned show ?thesis
            by blast
        next
          case (Left c n cr r)
          with unfolded inner have rec: "ReadPartial e w s c n cr r = Some (k, result')"
            by simp
          from ReadPartial_inner_Left_count inner Left more
          have sum: "n + cr = chunks_to_read + chunks_read" and nonneg: "0 \<le> n"
            by blast+
          from "1.IH" [OF more cps refl refl refl index Some refl refl refl inner Left rec]
          have "k < 0 \<or> k = cr + max 0 n" .
          with sum nonneg more show ?thesis by auto
        qed
      qed
    qed
  qed
qed








subsection \<open>Chunk boundary invariance\<close>




lemma FlushBevy_carry:
  "FlushBevy w (s\<lparr>stream_size := z\<rparr>) =
     (case FlushBevy w s of (st, w', s') \<Rightarrow> (st, w', s'\<lparr>stream_size := z\<rparr>))"
  "FlushBevy w (s\<lparr>readptr := y\<rparr>) =
     (case FlushBevy w s of (st, w', s') \<Rightarrow> (st, w', s'\<lparr>readptr := y\<rparr>))"
  "FlushBevy w (s\<lparr>buffer := x\<rparr>) =
     (case FlushBevy w s of (st, w', s') \<Rightarrow> (st, w', s'\<lparr>buffer := x\<rparr>))"
  "FlushBevy w (s\<lparr>dirty := d\<rparr>) =
     (case FlushBevy w s of (st, w', s') \<Rightarrow> (st, w', s'\<lparr>dirty := d\<rparr>))"
  by (simp_all add: FlushBevy_def Let_def)















end
